theory Spec2Isabelle
  imports Main "HOL-Library.AList"
begin

section \<open>Python values, objects and classes\<close>

text \<open>
  The estimator base class of \<^verbatim>\<open>aeon/base/_base.py\<close> works by reflection on
  Python objects: it lists attribute names, deletes and sets attributes, walks the
  method resolution order of a class. The model therefore starts from a small universe
  of Python values (\<open>PFun\<close> is a function or method, \<open>PClass\<close> a class used as a
  value, \<open>PObj\<close> an instance). An object is its class together with its instance dictionary; a
  class carries what the code reads from it:
  \<^item> \<open>cname\<close>: \<^verbatim>\<open>__name__\<close>;
  \<^item> \<open>kind\<close>: whether the class derives from aeon's \<^verbatim>\<open>BaseEstimator\<close>, only from
    scikit-learn's one, or from neither (this decides every \<^verbatim>\<open>isinstance\<close> test
    of the source);
  \<^item> \<open>init_params\<close>: the parameters of \<^verbatim>\<open>__init__\<close> after \<^verbatim>\<open>self\<close>, each with its
    default when it has one, in the order of their names (the order in which
    scikit-learn's \<^verbatim>\<open>_get_param_names\<close> returns them);
  \<^item> \<open>mro_tags\<close>: for every class of \<^verbatim>\<open>inspect.getmro(cls)[:-2]\<close>, the class itself
    first, its \<^verbatim>\<open>_tags\<close> attribute, or \<open>None\<close> when \<^verbatim>\<open>hasattr(parent_class, "_tags")\<close>
    is false;
  \<^item> \<open>cls_attrs\<close>: the class-level attributes, that is \<^verbatim>\<open>dir(type(self))\<close> with
    the values an attribute read on an instance falls back to.
  A dictionary is an association list in insertion order; its keys are strings, as
  the keys of tags, of keyword arguments and of instance dictionaries are.
\<close>

datatype est_kind = AeonEstimator | SklearnEstimator | PlainObject

datatype pyval =
    PNone
  | PBool bool
  | PInt int
  | PStr string
  | PList "pyval list"
  | PDict "(string \<times> pyval) list"
  | PFun string
  | PClass pyclass
  | PObj pyobj
and pyobj =
    Obj (obj_cls: pyclass) (obj_attrs: "(string \<times> pyval) list")
and pyclass =
    PyClass (cname: string) (kind: est_kind)
      (init_params: "(string \<times> pyval option) list")
      (mro_tags: "(string \<times> pyval) list option list")
      (cls_attrs: "(string \<times> pyval) list")

type_synonym pydict = "(string \<times> pyval) list"

subsection \<open>Exceptions\<close>

text \<open>
  A raised exception is a value: its class and its message. The classes are the ones
  the modelled code raises, with the part of Python's hierarchy above them
  (\<^verbatim>\<open>NotFittedError\<close> of scikit-learn derives from both \<^verbatim>\<open>ValueError\<close> and
  \<^verbatim>\<open>AttributeError\<close>; \<^verbatim>\<open>KeyError\<close> and \<^verbatim>\<open>IndexError\<close> derive from
  \<^verbatim>\<open>LookupError\<close>).
\<close>

datatype exc_class =
    ExcException
  | ExcValueError
  | ExcTypeError
  | ExcAttributeError
  | ExcRuntimeError
  | ExcLookupError
  | ExcKeyError
  | ExcIndexError
  | ExcNotFittedError

datatype pyerror = Raise (exc_cls: exc_class) (exc_msg: string)

fun exc_mro :: "exc_class \<Rightarrow> exc_class list" where
  "exc_mro ExcException = [ExcException]"
| "exc_mro ExcValueError = [ExcValueError, ExcException]"
| "exc_mro ExcTypeError = [ExcTypeError, ExcException]"
| "exc_mro ExcAttributeError = [ExcAttributeError, ExcException]"
| "exc_mro ExcRuntimeError = [ExcRuntimeError, ExcException]"
| "exc_mro ExcLookupError = [ExcLookupError, ExcException]"
| "exc_mro ExcKeyError = [ExcKeyError, ExcLookupError, ExcException]"
| "exc_mro ExcIndexError = [ExcIndexError, ExcLookupError, ExcException]"
| "exc_mro ExcNotFittedError =
     [ExcNotFittedError, ExcValueError, ExcAttributeError, ExcException]"

definition isinstance_exc :: "pyerror \<Rightarrow> exc_class \<Rightarrow> bool" where
  "isinstance_exc e c = (c \<in> set (exc_mro (exc_cls e)))"

subsection \<open>Dictionaries, strings, attributes\<close>

definition dict_keys :: "(string \<times> 'v) list \<Rightarrow> string list" where
  "dict_keys d = map fst d"

text \<open>\<^verbatim>\<open>d.update(other)\<close>: a key that is present keeps its place, a new key goes last.\<close>

definition dict_update :: "(string \<times> 'v) list \<Rightarrow> (string \<times> 'v) list \<Rightarrow> (string \<times> 'v) list" where
  "dict_update d other = fold (\<lambda>(k, v). AList.update k v) other d"

text \<open>\<^verbatim>\<open>d.get(k, default)\<close>.\<close>

definition dict_get :: "(string \<times> 'v) list \<Rightarrow> string \<Rightarrow> 'v \<Rightarrow> 'v" where
  "dict_get d k dflt = (case map_of d k of None \<Rightarrow> dflt | Some v \<Rightarrow> v)"

text \<open>
  \<^verbatim>\<open>copy.deepcopy\<close>: the values of this model are immutable trees, so the deep copy of
  a value is the value. What the copy is for, the absence of shared mutable cells, is
  the subject of the store model at the end of the theory.
\<close>

definition deepcopy :: "'a \<Rightarrow> 'a" where
  "deepcopy v = v"

text \<open>\<^verbatim>\<open>"__" in attr\<close>, \<^verbatim>\<open>x.endswith("_")\<close>, \<^verbatim>\<open>x.startswith("_")\<close>.\<close>

fun has_dunder :: "string \<Rightarrow> bool" where
  "has_dunder (a # b # cs) = ((a = CHR ''_'' \<and> b = CHR ''_'') \<or> has_dunder (b # cs))"
| "has_dunder _ = False"



text \<open>
  Attribute access on an instance: the instance dictionary first, then the class.
  \<^verbatim>\<open>dir(self)\<close> lists both (Python sorts the names; no claim depends on the order).
\<close>

definition getattr :: "pyobj \<Rightarrow> string \<Rightarrow> pyval option" where
  "getattr obj name =
     (case map_of (obj_attrs obj) name of
        Some v \<Rightarrow> Some v
      | None \<Rightarrow> map_of (cls_attrs (obj_cls obj)) name)"

definition hasattr :: "pyobj \<Rightarrow> string \<Rightarrow> bool" where
  "hasattr obj name = (getattr obj name \<noteq> None)"

definition setattr :: "pyobj \<Rightarrow> string \<Rightarrow> pyval \<Rightarrow> pyobj" where
  "setattr obj name v = Obj (obj_cls obj) (AList.update name v (obj_attrs obj))"

definition delattr :: "pyobj \<Rightarrow> string \<Rightarrow> pyerror + pyobj" where
  "delattr obj name =
     (if name \<in> set (dict_keys (obj_attrs obj))
      then Inr (Obj (obj_cls obj) (AList.delete name (obj_attrs obj)))
      else Inl (Raise ExcAttributeError name))"

definition dir_cls :: "pyclass \<Rightarrow> string list" where
  "dir_cls c = dict_keys (cls_attrs c)"

definition dir_obj :: "pyobj \<Rightarrow> string list" where
  "dir_obj obj = remdups (dict_keys (obj_attrs obj) @ dir_cls (obj_cls obj))"

text \<open>Truth value of a Python value, as \<^verbatim>\<open>if x\<close> and \<^verbatim>\<open>not x\<close> take it. The objects of
  the model define neither \<^verbatim>\<open>__bool__\<close> nor \<^verbatim>\<open>__len__\<close>, as \<^verbatim>\<open>BaseEstimator\<close> does not.\<close>

fun truthy :: "pyval \<Rightarrow> bool" where
  "truthy PNone = False"
| "truthy (PBool b) = b"
| "truthy (PInt i) = (i \<noteq> 0)"
| "truthy (PStr s) = (s \<noteq> [])"
| "truthy (PList xs) = (xs \<noteq> [])"
| "truthy (PDict d) = (d \<noteq> [])"
| "truthy (PFun f) = True"
| "truthy (PClass c) = True"
| "truthy (PObj obj) = True"

section \<open>Tags\<close>

text \<open>
  \<^verbatim>\<open>get_class_tags\<close> (lines 131-155): start from an empty dictionary, walk
  \<^verbatim>\<open>reversed(inspect.getmro(cls)[:-2])\<close>, update with the \<^verbatim>\<open>_tags\<close> of every class that
  has the attribute, return a deep copy.
\<close>

definition get_class_tags :: "pyclass \<Rightarrow> pydict" where
  "get_class_tags cls =
     deepcopy (fold (\<lambda>parent_tags collected_tags.
                       case parent_tags of
                         None \<Rightarrow> collected_tags
                       | Some more_tags \<Rightarrow> dict_update collected_tags more_tags)
                 (rev (mro_tags cls)) [])"

definition tag_not_found :: "string \<Rightarrow> pyerror" where
  "tag_not_found tag_name =
     Raise ExcValueError (''Tag with name '' @ tag_name @ '' could not be found.'')"

text \<open>\<^verbatim>\<open>get_class_tag\<close> (lines 157-201); \<^verbatim>\<open>raise_error\<close> defaults to \<^verbatim>\<open>False\<close>.\<close>

definition get_class_tag :: "pyclass \<Rightarrow> string \<Rightarrow> pyval \<Rightarrow> bool \<Rightarrow> pyerror + pyval" where
  "get_class_tag cls tag_name tag_value_default raise_error =
     (let collected_tags = get_class_tags cls;
          tag_value = dict_get collected_tags tag_name tag_value_default
      in if raise_error \<and> tag_name \<notin> set (dict_keys collected_tags)
         then Inl (tag_not_found tag_name)
         else Inr tag_value)"

text \<open>
  \<^verbatim>\<open>get_tags\<close> (lines 203-233). \<^verbatim>\<open>collected_tags.update(self._tags_dynamic)\<close> is
  modelled for a dictionary; on another value the model raises the \<^verbatim>\<open>TypeError\<close>
  that Python raises for a value that is not iterable (Python also accepts an iterable
  of key/value pairs there, which the model leaves out).
\<close>

definition get_tags :: "pyobj \<Rightarrow> pyerror + pydict" where
  "get_tags self =
     (let collected_tags = get_class_tags (obj_cls self)
      in case getattr self ''_tags_dynamic'' of
           None \<Rightarrow> Inr (deepcopy collected_tags)
         | Some (PDict tags_dynamic) \<Rightarrow> Inr (deepcopy (dict_update collected_tags tags_dynamic))
         | Some _ \<Rightarrow> Inl (Raise ExcTypeError ''object is not iterable''))"

text \<open>\<^verbatim>\<open>get_tag\<close> (lines 235-281); \<^verbatim>\<open>raise_error\<close> defaults to \<^verbatim>\<open>True\<close>.\<close>

definition get_tag :: "pyobj \<Rightarrow> string \<Rightarrow> pyval \<Rightarrow> bool \<Rightarrow> pyerror + pyval" where
  "get_tag self tag_name tag_value_default raise_error =
     (case get_tags self of
        Inl e \<Rightarrow> Inl e
      | Inr collected_tags \<Rightarrow>
          (let tag_value = dict_get collected_tags tag_name tag_value_default
           in if raise_error \<and> tag_name \<notin> set (dict_keys collected_tags)
              then Inl (tag_not_found tag_name)
              else Inr tag_value))"

definition get_class_tag_raise_error_default :: bool where
  "get_class_tag_raise_error_default = False"

definition get_tag_raise_error_default :: bool where
  "get_tag_raise_error_default = True"

text \<open>
  \<^verbatim>\<open>set_tags\<close> (lines 283-308). \<^verbatim>\<open>self._tags_dynamic.update(tag_update)\<close> changes the
  dictionary that the attribute read finds: the one of the instance, or, when the
  instance has none and the class has one, the one of the class. A value without an
  \<^verbatim>\<open>update\<close> method raises \<^verbatim>\<open>AttributeError\<close>.
\<close>

definition set_tags :: "pyobj \<Rightarrow> pydict \<Rightarrow> pyerror + pyobj" where
  "set_tags self tag_dict =
     (let tag_update = deepcopy tag_dict
      in if hasattr self ''_tags_dynamic''
         then (case map_of (obj_attrs self) ''_tags_dynamic'' of
                 Some (PDict d) \<Rightarrow>
                   Inr (setattr self ''_tags_dynamic'' (PDict (dict_update d tag_update)))
               | Some _ \<Rightarrow> Inl (Raise ExcAttributeError ''update'')
               | None \<Rightarrow>
                   (case map_of (cls_attrs (obj_cls self)) ''_tags_dynamic'' of
                      Some (PDict d) \<Rightarrow>
                        (let c = obj_cls self
                         in Inr (Obj (PyClass (cname c) (kind c) (init_params c) (mro_tags c)
                                        (AList.update ''_tags_dynamic''
                                           (PDict (dict_update d tag_update)) (cls_attrs c)))
                                     (obj_attrs self)))
                    | _ \<Rightarrow> Inl (Raise ExcAttributeError ''update'')))
         else Inr (setattr self ''_tags_dynamic'' (PDict tag_update)))"


text \<open>
  Well-formedness: a Python dictionary holds a key once. \<open>tags_dynamic_ok\<close> says that
  the dynamic tags of an instance, when it has them, are such a dictionary, as
  \<^verbatim>\<open>__init__\<close> and \<^verbatim>\<open>set_tags\<close> leave them; \<open>class_tags_ok\<close> says the same of
  every \<^verbatim>\<open>_tags\<close> in the method resolution order.
\<close>

definition wf_dict :: "(string \<times> 'v) list \<Rightarrow> bool" where
  "wf_dict d = distinct (map fst d)"

definition tags_dynamic_ok :: "pyobj \<Rightarrow> bool" where
  "tags_dynamic_ok self =
     (case getattr self ''_tags_dynamic'' of
        None \<Rightarrow> True
      | Some (PDict d) \<Rightarrow> wf_dict d
      | Some _ \<Rightarrow> False)"

definition class_tags_ok :: "pyclass \<Rightarrow> bool" where
  "class_tags_ok cls = list_all (\<lambda>t. case t of None \<Rightarrow> True | Some d \<Rightarrow> wf_dict d) (mro_tags cls)"

text \<open>
  The resolution order in the words of the specification: a key has the value that
  the most specific class declaring it gives. \<open>mro_lookup\<close> searches the method
  resolution order from the class itself upwards.
\<close>

fun mro_lookup :: "(string \<times> 'v) list option list \<Rightarrow> string \<Rightarrow> 'v option" where
  "mro_lookup [] k = None"
| "mro_lookup (None # ts) k = mro_lookup ts k"
| "mro_lookup (Some d # ts) k =
     (case map_of d k of Some v \<Rightarrow> Some v | None \<Rightarrow> mro_lookup ts k)"


section \<open>Construction, parameters, fitted state\<close>

subsection \<open>Loops that may raise\<close>

fun mapM :: "('a \<Rightarrow> pyerror + 'b) \<Rightarrow> 'a list \<Rightarrow> pyerror + 'b list" where
  "mapM f [] = Inr []"
| "mapM f (x # xs) =
     (case f x of
        Inl e \<Rightarrow> Inl e
      | Inr y \<Rightarrow> (case mapM f xs of Inl e \<Rightarrow> Inl e | Inr ys \<Rightarrow> Inr (y # ys)))"

fun foldM :: "('a \<Rightarrow> 'b \<Rightarrow> pyerror + 'b) \<Rightarrow> 'a list \<Rightarrow> 'b \<Rightarrow> pyerror + 'b" where
  "foldM f [] acc = Inr acc"
| "foldM f (x # xs) acc =
     (case f x acc of Inl e \<Rightarrow> Inl e | Inr acc' \<Rightarrow> foldM f xs acc')"

lemma mapM_cong [fundef_cong]:
  "xs = ys \<Longrightarrow> (\<And>x. x \<in> set ys \<Longrightarrow> f x = g x) \<Longrightarrow> mapM f xs = mapM g ys"
  by (induction ys arbitrary: xs) (auto split: sum.splits)

lemma foldM_cong [fundef_cong]:
  "xs = ys \<Longrightarrow> a = b \<Longrightarrow> (\<And>x acc. x \<in> set ys \<Longrightarrow> f x acc = g x acc)
   \<Longrightarrow> foldM f xs a = foldM g ys b"
  by (induction ys arbitrary: xs a b) (auto split: sum.splits)

lemma size_map_of:
  "map_of d k = Some (v::pyval) \<Longrightarrow> size v < Suc (size_list (size_prod (\<lambda>_. 0) size) d)"
  by (induction d) (auto split: if_splits)

lemma size_getattr:
  assumes "getattr obj key = Some v"
  shows "size v < size obj"
proof (cases obj)
  case (Obj c attrs)
  with assms show ?thesis
    by (cases c) (auto simp: getattr_def split: option.splits dest!: size_map_of)
qed

subsection \<open>The constructor\<close>

text \<open>
  Binding the keyword arguments of \<^verbatim>\<open>cls(**kwargs)\<close> to the parameters of
  \<^verbatim>\<open>__init__\<close>: an unknown keyword and a missing argument without default raise
  \<^verbatim>\<open>TypeError\<close>.
\<close>

definition bind_kwargs :: "pyclass \<Rightarrow> pydict \<Rightarrow> pyerror + pydict" where
  "bind_kwargs cls kwargs =
     (case filter (\<lambda>k. k \<notin> set (map fst (init_params cls))) (dict_keys kwargs) of
        k # _ \<Rightarrow> Inl (Raise ExcTypeError (''__init__() got an unexpected keyword argument '' @ k))
      | [] \<Rightarrow>
          mapM (\<lambda>(p, dflt).
                  case map_of kwargs p of
                    Some v \<Rightarrow> Inr (p, v)
                  | None \<Rightarrow>
                      (case dflt of
                         Some v \<Rightarrow> Inr (p, v)
                       | None \<Rightarrow> Inl (Raise ExcTypeError (''__init__() missing required argument '' @ p))))
               (init_params cls))"

text \<open>\<^verbatim>\<open>BaseEstimator.__init__\<close> (lines 61-65); \<^verbatim>\<open>super().__init__()\<close> there reaches
  \<^verbatim>\<open>object.__init__\<close>, which does nothing.\<close>

definition BaseEstimator_init :: "pyobj \<Rightarrow> pyobj" where
  "BaseEstimator_init self =
     setattr (setattr self ''_is_fitted'' (PBool False)) ''_tags_dynamic'' (PDict [])"

text \<open>
  The \<^verbatim>\<open>__init__\<close> of a concrete estimator class, as \<^verbatim>\<open>self.__init__(**params)\<close> and
  \<^verbatim>\<open>klass(**params)\<close> dispatch to it. The model takes the convention that scikit-learn
  requires of every estimator and that \<^verbatim>\<open>get_params\<close> and \<^verbatim>\<open>clone\<close> rest on: each
  parameter is stored unchanged as the attribute of its name; a class that derives from
  aeon's \<^verbatim>\<open>BaseEstimator\<close> then runs \<^verbatim>\<open>BaseEstimator.__init__\<close>. Attributes that a
  particular \<^verbatim>\<open>__init__\<close> sets beyond these are not modelled.
\<close>

definition estimator_init :: "pyobj \<Rightarrow> pydict \<Rightarrow> pyerror + pyobj" where
  "estimator_init self kwargs =
     (case bind_kwargs (obj_cls self) kwargs of
        Inl e \<Rightarrow> Inl e
      | Inr args \<Rightarrow>
          (let self1 = fold (\<lambda>(p, v) s. setattr s p v) args self
           in Inr (if kind (obj_cls self) = AeonEstimator then BaseEstimator_init self1
                   else self1)))"

definition construct :: "pyclass \<Rightarrow> pydict \<Rightarrow> pyerror + pyobj" where
  "construct cls kwargs = estimator_init (Obj cls []) kwargs"

subsection \<open>Parameters (scikit-learn's get\_params)\<close>

text \<open>
  \<^verbatim>\<open>get_params(deep)\<close> of \<^verbatim>\<open>sklearn.base.BaseEstimator\<close>, which the class inherits:
  for every name of \<^verbatim>\<open>_get_param_names()\<close>, \<^verbatim>\<open>value = getattr(self, key)\<close>; when
  \<^verbatim>\<open>deep\<close> and the value has a \<^verbatim>\<open>get_params\<close> method and is not a class, the
  parameters of the value are added under \<^verbatim>\<open>key__name\<close>; then \<^verbatim>\<open>out[key] = value\<close>.
\<close>

function get_params :: "bool \<Rightarrow> pyobj \<Rightarrow> pyerror + pydict" where
  "get_params deep self =
     foldM (\<lambda>key out.
              case getattr self key of
                None \<Rightarrow> Inl (Raise ExcAttributeError key)
              | Some value \<Rightarrow>
                  (case value of
                     PObj sub \<Rightarrow>
                       (if deep \<and> kind (obj_cls sub) \<noteq> PlainObject
                        then (case get_params True sub of
                                Inl e \<Rightarrow> Inl e
                              | Inr deep_items \<Rightarrow>
                                  Inr (AList.update key value
                                         (dict_update out
                                            (map (\<lambda>(k, val). (key @ ''__'' @ k, val)) deep_items))))
                        else Inr (AList.update key value out))
                   | _ \<Rightarrow> Inr (AList.update key value out)))
           (map fst (init_params (obj_cls self))) []"
  by pat_completeness auto
termination
proof (relation "measure (\<lambda>(deep, self). size self)")
  show "wf (measure (\<lambda>(deep, self). size self))" by simp
next
  fix deep self key acc "value" sub
  assume "getattr self key = Some value" and "value = PObj sub"
  then have "size (PObj sub) < size self" using size_getattr by blast
  then show "((True, sub), (deep, self)) \<in> measure (\<lambda>(deep, self). size self)" by simp
qed

declare get_params.simps [simp del]

lemma get_params_False:
  "get_params False self =
     foldM (\<lambda>key out.
              case getattr self key of
                None \<Rightarrow> Inl (Raise ExcAttributeError key)
              | Some value \<Rightarrow> Inr (AList.update key value out))
       (map fst (init_params (obj_cls self))) []"
  by (subst get_params.simps, rule foldM_cong) (auto split: option.splits pyval.splits)

lemma set_AList_update:
  "(k, v) \<in> set (AList.update key val acc) \<Longrightarrow> (k, v) \<in> set acc \<or> (k = key \<and> v = val)"
  by (induction acc) (auto split: if_splits)

lemma foldM_params_values:
  "foldM (\<lambda>key out.
              case getattr self key of
                None \<Rightarrow> Inl (Raise ExcAttributeError key)
              | Some value \<Rightarrow> Inr (AList.update key value out)) keys acc = Inr ps
   \<Longrightarrow> (k, v) \<in> set ps \<Longrightarrow> (k, v) \<in> set acc \<or> getattr self k = Some v"
proof (induction keys arbitrary: acc)
  case Nil then show ?case by simp
next
  case (Cons key keys)
  from Cons.prems(1) obtain val where val: "getattr self key = Some val"
    by (cases "getattr self key") auto
  with Cons.prems(1) have "foldM (\<lambda>key out.
              case getattr self key of
                None \<Rightarrow> Inl (Raise ExcAttributeError key)
              | Some value \<Rightarrow> Inr (AList.update key value out)) keys (AList.update key val acc) = Inr ps"
    by simp
  from Cons.IH [OF this Cons.prems(2)] val show ?case
    by (auto dest: set_AList_update)
qed

lemma get_params_False_values:
  "get_params False self = Inr ps \<Longrightarrow> (k, v) \<in> set ps \<Longrightarrow> getattr self k = Some v"
  using foldM_params_values [of self _ "[]" ps k v] by (simp add: get_params_False)

lemma size_list_member: "x \<in> set xs \<Longrightarrow> size (x::pyval) < Suc (size_list size xs)"
  by (induction xs) auto

lemma size_dict_member:
  "(k, v) \<in> set d \<Longrightarrow> size (v::pyval) < Suc (size_list (size_prod (\<lambda>x. 0) size) d)"
  by (induction d) auto

subsection \<open>The fitted flag\<close>

text \<open>The property \<^verbatim>\<open>is_fitted\<close> (lines 608-611) reads \<^verbatim>\<open>self._is_fitted\<close>.\<close>

definition is_fitted :: "pyobj \<Rightarrow> pyerror + pyval" where
  "is_fitted self =
     (case getattr self ''_is_fitted'' of
        None \<Rightarrow> Inl (Raise ExcAttributeError ''_is_fitted'')
      | Some v \<Rightarrow> Inr v)"

definition not_fitted_msg :: "string \<Rightarrow> string" where
  "not_fitted_msg name =
     ''This instance of '' @ name @ '' has not been fitted yet; please call `fit` first.''"

text \<open>\<^verbatim>\<open>check_is_fitted\<close> (lines 613-626).\<close>

definition check_is_fitted :: "pyobj \<Rightarrow> pyerror + unit" where
  "check_is_fitted self =
     (case is_fitted self of
        Inl e \<Rightarrow> Inl e
      | Inr v \<Rightarrow>
          if \<not> truthy v
          then Inl (Raise ExcNotFittedError (not_fitted_msg (cname (obj_cls self))))
          else Inr ())"

section \<open>Reset\<close>

text \<open>
  \<^verbatim>\<open>self_attrs.discard(attr)\<close> on the set of attribute names: the argument is hashed
  first, which raises \<^verbatim>\<open>TypeError\<close> for a list or a dictionary; a string equal to
  a member removes it; any other hashable value equals no member.
\<close>

fun discard :: "pyval \<Rightarrow> string list \<Rightarrow> pyerror + string list" where
  "discard (PStr a) self_attrs = Inr (removeAll a self_attrs)"
| "discard (PList xs) self_attrs = Inl (Raise ExcTypeError ''unhashable type: list'')"
| "discard (PDict d) self_attrs = Inl (Raise ExcTypeError ''unhashable type: dict'')"
| "discard _ self_attrs = Inr self_attrs"

definition keep_type_error :: pyerror where
  "keep_type_error =
     Raise ExcTypeError
       (''keep must be a string or list of strings containing attributes '' @
        ''to keep after the reset.'')"

text \<open>Lines 92-102 of \<^verbatim>\<open>reset\<close>: what \<^verbatim>\<open>keep\<close> leaves of the names to delete.\<close>

fun reset_keep :: "pyval \<Rightarrow> string list \<Rightarrow> pyerror + string list" where
  "reset_keep PNone self_attrs = Inr self_attrs"
| "reset_keep (PStr k) self_attrs = foldM discard [PStr k] self_attrs"
| "reset_keep (PList ks) self_attrs = foldM discard ks self_attrs"
| "reset_keep _ self_attrs = Inl keep_type_error"

text \<open>
  \<^verbatim>\<open>reset\<close> (lines 67-110). \<^verbatim>\<open>self_attrs\<close> is a set in the source; the model keeps it
  as a list without repetition. The instance is changed in place and returned; the
  model returns the changed instance.
\<close>

definition reset :: "pyobj \<Rightarrow> pyval \<Rightarrow> pyerror + pyobj" where
  "reset self keep =
     (case get_params False self of
        Inl e \<Rightarrow> Inl e
      | Inr params \<Rightarrow>
          (let attrs = filter (\<lambda>attr. \<not> has_dunder attr) (dir_obj self);
               cls_attrs = dir_cls (obj_cls self);
               self_attrs = filter (\<lambda>attr. attr \<notin> set cls_attrs) attrs
           in case reset_keep keep self_attrs of
                Inl e \<Rightarrow> Inl e
              | Inr self_attrs \<Rightarrow>
                  (case foldM (\<lambda>attr s. delattr s attr) self_attrs self of
                     Inl e \<Rightarrow> Inl e
                   | Inr self1 \<Rightarrow> estimator_init self1 params)))"

section \<open>Clone\<close>

text \<open>
  \<^verbatim>\<open>sklearn.base.clone(estimator, safe)\<close>, which \<^verbatim>\<open>BaseEstimator.clone\<close> calls: a
  dictionary and a list are cloned element by element; a value without
  \<^verbatim>\<open>get_params\<close>, or a class, is deep-copied when \<^verbatim>\<open>safe\<close> is false and refused with
  \<^verbatim>\<open>TypeError\<close> otherwise; an estimator is rebuilt by its constructor from the clones
  (\<^verbatim>\<open>safe=False\<close>) of its \<^verbatim>\<open>get_params(deep=False)\<close>, after which scikit-learn checks that
  the constructor stored each parameter as it was given (\<^verbatim>\<open>param1 is not param2\<close>;
  the model compares values) and raises \<^verbatim>\<open>RuntimeError\<close> if not.
\<close>

definition cannot_clone :: pyerror where
  "cannot_clone =
     Raise ExcTypeError ''Cannot clone object: it does not implement a get_params method.''"

function sk_clone :: "bool \<Rightarrow> pyval \<Rightarrow> pyerror + pyval" where
  "sk_clone safe (PDict d) =
     (case mapM (\<lambda>(k, v). case sk_clone safe v of Inl e \<Rightarrow> Inl e | Inr v' \<Rightarrow> Inr (k, v')) d of
        Inl e \<Rightarrow> Inl e
      | Inr d' \<Rightarrow> Inr (PDict d'))"
| "sk_clone safe (PList xs) =
     (case mapM (sk_clone safe) xs of Inl e \<Rightarrow> Inl e | Inr xs' \<Rightarrow> Inr (PList xs'))"
| "sk_clone safe (PObj estimator) =
     (if kind (obj_cls estimator) = PlainObject
      then (if \<not> safe then Inr (deepcopy (PObj estimator)) else Inl cannot_clone)
      else
        (case get_params False estimator of
           Inl e \<Rightarrow> Inl e
         | Inr params \<Rightarrow>
             (case mapM (\<lambda>(name, param).
                           case sk_clone False param of
                             Inl e \<Rightarrow> Inl e
                           | Inr param' \<Rightarrow> Inr (name, param')) params of
                Inl e \<Rightarrow> Inl e
              | Inr new_object_params \<Rightarrow>
                  (case construct (obj_cls estimator) new_object_params of
                     Inl e \<Rightarrow> Inl e
                   | Inr new_object \<Rightarrow>
                       (case get_params False new_object of
                          Inl e \<Rightarrow> Inl e
                        | Inr params_set \<Rightarrow>
                            if list_ex (\<lambda>name. map_of new_object_params name \<noteq> map_of params_set name)
                                 (dict_keys new_object_params)
                            then Inl (Raise ExcRuntimeError
                                        ''Cannot clone object: the constructor does not set its parameters'')
                            else Inr (PObj new_object))))))"
| "sk_clone safe PNone = (if \<not> safe then Inr (deepcopy PNone) else Inl cannot_clone)"
| "sk_clone safe (PBool b) = (if \<not> safe then Inr (deepcopy (PBool b)) else Inl cannot_clone)"
| "sk_clone safe (PInt i) = (if \<not> safe then Inr (deepcopy (PInt i)) else Inl cannot_clone)"
| "sk_clone safe (PStr s) = (if \<not> safe then Inr (deepcopy (PStr s)) else Inl cannot_clone)"
| "sk_clone safe (PFun f) = (if \<not> safe then Inr (deepcopy (PFun f)) else Inl cannot_clone)"
| "sk_clone safe (PClass c) = (if \<not> safe then Inr (deepcopy (PClass c)) else Inl cannot_clone)"
  by pat_completeness auto
termination
proof (relation "measure (\<lambda>(safe, v). size v)", goal_cases)
  case 1
  show ?case by simp
next
  case (2 safe d x k v)
  then show ?case using size_dict_member [of k v d] by simp
next
  case (3 safe xs x)
  then show ?case using size_list_member [of x xs] by simp
next
  case (4 safe estimator params x name param)
  then have "getattr estimator name = Some param"
    using get_params_False_values by metis
  then show ?case using size_getattr [of estimator name param] by simp
qed

declare sk_clone.simps [simp del]

text \<open>
  \<^verbatim>\<open>clone\<close> (lines 112-129). \<^verbatim>\<open>_set_random_states\<close> is scikit-learn's; it is a
  parameter of the model and runs only when \<^verbatim>\<open>random_state\<close> is given.
\<close>

definition clone ::
  "(pyval \<Rightarrow> pyval \<Rightarrow> pyerror + pyval) \<Rightarrow> pyobj \<Rightarrow> pyval \<Rightarrow> pyerror + pyval" where
  "clone set_random_states self random_state =
     (case sk_clone True (PObj self) of
        Inl e \<Rightarrow> Inl e
      | Inr estimator \<Rightarrow>
          if random_state \<noteq> PNone then set_random_states estimator random_state
          else Inr estimator)"

section \<open>Composition and fitted parameters\<close>

























section \<open>Serialisation\<close>

text \<open>
  \<^verbatim>\<open>save\<close> (lines 521-568), \<^verbatim>\<open>load_from_serial\<close> (lines 570-586) and
  \<^verbatim>\<open>load_from_path\<close> (lines 588-606). \<^verbatim>\<open>pickle.dumps\<close> and \<^verbatim>\<open>pickle.loads\<close> belong to
  the Python library and are parameters of the model; \<open>'s\<close> is the type of the byte
  strings they exchange. With \<^verbatim>\<open>path=None\<close> the result is the pair of the class and
  the pickled instance. With a path the source writes the two pickles into a directory,
  archives it and returns the opened archive: the model gives the archive as a value,
  its name and its two entries, and takes a path to be a string, leaving out the
  failures of the file system.
\<close>

datatype 's saved =
    InMemory "pyclass \<times> 's"
  | ZipFile string "(string \<times> 's) list"

definition save ::
  "(pyval \<Rightarrow> pyerror + 's) \<Rightarrow> pyobj \<Rightarrow> pyval \<Rightarrow> pyerror + 's saved" where
  "save pickle_dumps self path =
     (if path = PNone
      then (case pickle_dumps (PObj self) of
              Inl e \<Rightarrow> Inl e
            | Inr serial \<Rightarrow> Inr (InMemory (obj_cls self, serial)))
      else
        (case path of
           PStr p \<Rightarrow>
             (case pickle_dumps (PClass (obj_cls self)) of
                Inl e \<Rightarrow> Inl e
              | Inr metadata \<Rightarrow>
                  (case pickle_dumps (PObj self) of
                     Inl e \<Rightarrow> Inl e
                   | Inr serial \<Rightarrow>
                       Inr (ZipFile (p @ ''.zip'') [(''_metadata'', metadata), (''_obj'', serial)])))
         | _ \<Rightarrow>
             Inl (Raise ExcTypeError
                    ''`path` is expected to either be a string or a Path object'')))"

definition load_from_serial :: "('s \<Rightarrow> pyerror + pyval) \<Rightarrow> 's \<Rightarrow> pyerror + pyval" where
  "load_from_serial pickle_loads serial = pickle_loads serial"

definition load_from_path :: "('s \<Rightarrow> pyerror + pyval) \<Rightarrow> 's saved \<Rightarrow> pyerror + pyval" where
  "load_from_path pickle_loads serial =
     (case serial of
        ZipFile name entries \<Rightarrow>
          (case map_of entries ''_obj'' of
             None \<Rightarrow> Inl (Raise ExcKeyError ''_obj'')
           | Some b \<Rightarrow> pickle_loads b)
      | InMemory x \<Rightarrow> Inl (Raise ExcTypeError ''not a zip file''))"

section \<open>Example classes and instances\<close>

text \<open>
  \<^verbatim>\<open>BaseEstimator\<close> itself, with the tags of lines 51-59, and a class
  \<^verbatim>\<open>DemoEstimator(BaseEstimator)\<close> with two parameters, \<^verbatim>\<open>estimator=None\<close> and
  \<^verbatim>\<open>n=1\<close>, that overrides one tag and adds one. The class attributes are abridged to
  \<^verbatim>\<open>_tags\<close> and a few method names.
\<close>

definition BaseEstimator_tags :: pydict where
  "BaseEstimator_tags =
     [(''python_version'', PNone),
      (''python_dependencies'', PNone),
      (''cant-pickle'', PBool False),
      (''non-deterministic'', PBool False),
      (''algorithm_type'', PNone),
      (''capability:missing_values'', PBool False),
      (''capability:multithreading'', PBool False)]"

definition BaseEstimator_cls :: pyclass where
  "BaseEstimator_cls =
     PyClass ''BaseEstimator'' AeonEstimator [] [Some BaseEstimator_tags]
       [(''_tags'', PDict BaseEstimator_tags), (''reset'', PFun ''reset''),
        (''is_fitted'', PFun ''is_fitted'')]"

definition Demo_tags :: pydict where
  "Demo_tags = [(''capability:missing_values'', PBool True), (''fit_is_empty'', PBool False)]"

definition Demo_cls :: pyclass where
  "Demo_cls =
     PyClass ''DemoEstimator'' AeonEstimator
       [(''estimator'', Some PNone), (''n'', Some (PInt 1))]
       [Some Demo_tags, Some BaseEstimator_tags]
       [(''_tags'', PDict Demo_tags), (''reset'', PFun ''reset''),
        (''is_fitted'', PFun ''is_fitted'')]"

text \<open>\<open>base_new\<close> is \<^verbatim>\<open>BaseEstimator()\<close>, \<open>demo_new\<close> is \<^verbatim>\<open>DemoEstimator(n=3)\<close>, and
  \<open>demo_fitted\<close> is \<open>demo_new\<close> after a fit that has set the flag and the fitted attribute
  \<^verbatim>\<open>coef_\<close>.\<close>

definition base_new :: pyobj where
  "base_new = Obj BaseEstimator_cls [(''_is_fitted'', PBool False), (''_tags_dynamic'', PDict [])]"

definition demo_new :: pyobj where
  "demo_new =
     Obj Demo_cls
       [(''estimator'', PNone), (''n'', PInt 3),
        (''_is_fitted'', PBool False), (''_tags_dynamic'', PDict [])]"

definition demo_fitted :: pyobj where
  "demo_fitted =
     Obj Demo_cls
       [(''estimator'', PNone), (''n'', PInt 3),
        (''_is_fitted'', PBool True), (''_tags_dynamic'', PDict []), (''coef_'', PInt 7)]"

section \<open>Properties of the tags\<close>

lemma dict_keys_update:
  "set (dict_keys (dict_update d other)) = set (dict_keys d) \<union> set (dict_keys other)"
  unfolding dict_update_def dict_keys_def
proof (induction other arbitrary: d)
  case Nil then show ?case by simp
next
  case (Cons a other)
  obtain k v where a: "a = (k, v)" by (cases a)
  show ?case using Cons.IH [of "AList.update k v d"] by (auto simp: a dom_update)
qed

lemma map_of_dict_update_rev:
  "map_of (dict_update d other) = map_of d ++ map_of (rev other)"
  unfolding dict_update_def
proof (induction other arbitrary: d)
  case Nil then show ?case by simp
next
  case (Cons a other)
  obtain k v where a: "a = (k, v)" by (cases a)
  show ?case
    by (rule ext) (simp add: a Cons.IH update_conv' map_add_def split: option.splits)
qed

lemma map_of_rev_wf: "wf_dict d \<Longrightarrow> map_of (rev d) = map_of d"
  unfolding wf_dict_def by (subst map_of_inject_set) (simp_all add: rev_map [symmetric])

lemma map_of_dict_update:
  "wf_dict other \<Longrightarrow> map_of (dict_update d other) = map_of d ++ map_of other"
  by (simp add: map_of_dict_update_rev map_of_rev_wf)

lemma wf_dict_update: "wf_dict d \<Longrightarrow> wf_dict (dict_update d other)"
  unfolding dict_update_def wf_dict_def
proof (induction other arbitrary: d)
  case Nil then show ?case by simp
next
  case (Cons a other)
  obtain k v where a: "a = (k, v)" by (cases a)
  show ?case using Cons.IH [of "AList.update k v d"] Cons.prems by (simp add: a distinct_update)
qed

lemma in_keys_iff: "k \<in> set (dict_keys d) \<longleftrightarrow> map_of d k \<noteq> None"
  by (simp add: dict_keys_def map_of_eq_None_iff)

lemma get_class_tags_foldr:
  "get_class_tags cls =
     foldr (\<lambda>t acc. case t of None \<Rightarrow> acc | Some more \<Rightarrow> dict_update acc more) (mro_tags cls) []"
  by (simp add: get_class_tags_def deepcopy_def foldr_conv_fold)

lemma map_of_get_class_tags:
  assumes "class_tags_ok cls"
  shows "map_of (get_class_tags cls) k = mro_lookup (mro_tags cls) k"
proof -
  have "list_all (\<lambda>t. case t of None \<Rightarrow> True | Some d \<Rightarrow> wf_dict d) ts \<Longrightarrow>
        map_of (foldr (\<lambda>t acc. case t of None \<Rightarrow> acc | Some more \<Rightarrow> dict_update acc more) ts []) k
        = mro_lookup ts k" for ts :: "pydict option list"
  proof (induction ts)
    case Nil then show ?case by simp
  next
    case (Cons t ts)
    show ?case
    proof (cases t)
      case None
      with Cons show ?thesis by simp
    next
      case (Some d)
      with Cons.prems have "wf_dict d" by simp
      with Some Cons show ?thesis
        by (simp add: map_of_dict_update map_add_def split: option.splits)
    qed
  qed
  with assms show ?thesis by (simp add: get_class_tags_foldr class_tags_ok_def)
qed

lemma get_tags_total:
  assumes "tags_dynamic_ok self"
  shows "\<exists>ts. get_tags self = Inr ts \<and>
              set (dict_keys (get_class_tags (obj_cls self))) \<subseteq> set (dict_keys ts)"
  using assms
  by (auto simp: tags_dynamic_ok_def get_tags_def deepcopy_def dict_keys_update
           split: option.splits pyval.splits)

lemma obj_cls_setattr [simp]: "obj_cls (setattr self n v) = obj_cls self"
  by (simp add: setattr_def)

lemma getattr_setattr:
  "getattr (setattr self n v) m = (if m = n then Some v else getattr self m)"
  by (simp add: getattr_def setattr_def update_conv' split: option.splits)

text \<open>What \<^verbatim>\<open>set_tags\<close> does to a well-formed instance, case by case: the call
  returns, the dynamic tags become the old ones updated with the argument, and nothing
  else that an attribute read or a tag lookup on the class can see has changed.\<close>

lemma set_tags_effect:
  assumes ok: "tags_dynamic_ok self"
  shows "\<exists>self' dyn. set_tags self tag_dict = Inr self'
           \<and> getattr self' ''_tags_dynamic'' = Some (PDict dyn)
           \<and> (getattr self ''_tags_dynamic'' = None \<and> dyn = tag_dict
                \<or> (\<exists>old. getattr self ''_tags_dynamic'' = Some (PDict old) \<and> wf_dict old
                          \<and> dyn = dict_update old tag_dict))
           \<and> mro_tags (obj_cls self') = mro_tags (obj_cls self)
           \<and> cname (obj_cls self') = cname (obj_cls self)
           \<and> (\<forall>name. name \<noteq> ''_tags_dynamic'' \<longrightarrow> getattr self' name = getattr self name)"
proof (cases "getattr self ''_tags_dynamic''")
  case None
  let ?self' = "setattr self ''_tags_dynamic'' (PDict tag_dict)"
  from None have "set_tags self tag_dict = Inr ?self'"
    by (simp add: set_tags_def hasattr_def deepcopy_def)
  moreover have "getattr ?self' ''_tags_dynamic'' = Some (PDict tag_dict)"
    by (simp add: getattr_setattr)
  moreover have "\<forall>name. name \<noteq> ''_tags_dynamic'' \<longrightarrow> getattr ?self' name = getattr self name"
    by (simp add: getattr_setattr)
  ultimately show ?thesis using None by auto
next
  case (Some a)
  with ok obtain old where a: "a = PDict old" and wfd: "wf_dict old"
    by (auto simp: tags_dynamic_ok_def split: pyval.splits)
  show ?thesis
  proof (cases "map_of (obj_attrs self) ''_tags_dynamic''")
    case None
    with Some a have c: "map_of (cls_attrs (obj_cls self)) ''_tags_dynamic'' = Some (PDict old)"
      by (simp add: getattr_def)
    let ?c = "obj_cls self"
    let ?self' = "Obj (PyClass (cname ?c) (kind ?c) (init_params ?c) (mro_tags ?c)
                        (AList.update ''_tags_dynamic'' (PDict (dict_update old tag_dict)) (cls_attrs ?c)))
                     (obj_attrs self)"
    have "set_tags self tag_dict = Inr ?self'"
      using None c Some by (simp add: set_tags_def hasattr_def deepcopy_def Let_def)
    moreover have "getattr ?self' ''_tags_dynamic'' = Some (PDict (dict_update old tag_dict))"
      using None by (simp add: getattr_def update_conv')
    moreover have "\<forall>name. name \<noteq> ''_tags_dynamic'' \<longrightarrow> getattr ?self' name = getattr self name"
      by (simp add: getattr_def update_conv' split: option.splits)
    ultimately show ?thesis using \<open>getattr self ''_tags_dynamic'' = Some a\<close> a wfd by auto
  next
    case (Some b)
    with \<open>getattr self ''_tags_dynamic'' = Some a\<close> a have b: "b = PDict old"
      by (simp add: getattr_def)
    let ?self' = "setattr self ''_tags_dynamic'' (PDict (dict_update old tag_dict))"
    have "set_tags self tag_dict = Inr ?self'"
      using Some b by (simp add: set_tags_def hasattr_def deepcopy_def getattr_def)
    moreover have "getattr ?self' ''_tags_dynamic'' = Some (PDict (dict_update old tag_dict))"
      by (simp add: getattr_setattr)
    moreover have "\<forall>name. name \<noteq> ''_tags_dynamic'' \<longrightarrow> getattr ?self' name = getattr self name"
      by (simp add: getattr_setattr)
    ultimately show ?thesis using \<open>getattr self ''_tags_dynamic'' = Some a\<close> a wfd
      by auto
  qed
qed

lemma get_class_tags_cong:
  "mro_tags c' = mro_tags c \<Longrightarrow> get_class_tags c' = get_class_tags c"
  by (simp add: get_class_tags_def)

lemma set_tags_get_tag:
  assumes ok: "tags_dynamic_ok self" and wf: "wf_dict tag_dict"
    and x: "map_of tag_dict x = Some v"
    and st: "set_tags self tag_dict = Inr self'"
  shows "get_tag self' x d r = Inr v"
proof -
  from set_tags_effect [OF ok, of tag_dict] st obtain dyn where
    dyn: "getattr self' ''_tags_dynamic'' = Some (PDict dyn)"
    and cases: "getattr self ''_tags_dynamic'' = None \<and> dyn = tag_dict
                \<or> (\<exists>old. getattr self ''_tags_dynamic'' = Some (PDict old) \<and> wf_dict old
                          \<and> dyn = dict_update old tag_dict)"
    by auto
  from cases wf x have "wf_dict dyn" and "map_of dyn x = Some v"
    by (auto simp: wf_dict_update map_of_dict_update)
  then have "map_of (dict_update (get_class_tags (obj_cls self')) dyn) x = Some v"
    by (simp add: map_of_dict_update)
  with dyn show ?thesis
    by (simp add: get_tag_def get_tags_def deepcopy_def dict_get_def in_keys_iff)
qed

text \<open>
  Claim C2. For an instance whose dynamic tags are a dictionary (or absent) and a class
  whose \<^verbatim>\<open>_tags\<close> are dictionaries: \<^verbatim>\<open>get_tags()\<close> returns, and its keys include the keys of
  \<^verbatim>\<open>get_class_tags()\<close>; the static value of a key is the one of the most specific class
  of the resolution order that declares it; and after \<^verbatim>\<open>set_tags\<close> with a dictionary
  that maps \<open>x\<close> to \<open>v\<close>, \<^verbatim>\<open>get_tag(x)\<close> returns \<open>v\<close>, whatever the static value of \<open>x\<close>,
  the default and the raise flag are.
\<close>

theorem tags_resolution:
  assumes "tags_dynamic_ok self" and "class_tags_ok (obj_cls self)"
    and "wf_dict tag_dict" and "map_of tag_dict x = Some v"
  shows "(\<exists>ts. get_tags self = Inr ts \<and>
               set (dict_keys (get_class_tags (obj_cls self))) \<subseteq> set (dict_keys ts))
       \<and> map_of (get_class_tags (obj_cls self)) k = mro_lookup (mro_tags (obj_cls self)) k
       \<and> (\<exists>self'. set_tags self tag_dict = Inr self' \<and> get_tag self' x d r = Inr v)"
proof -
  from set_tags_effect [OF assms(1), of tag_dict] obtain self' where
    "set_tags self tag_dict = Inr self'" by auto
  with set_tags_get_tag [OF assms(1,3,4)] have
    "\<exists>self'. set_tags self tag_dict = Inr self' \<and> get_tag self' x d r = Inr v" by auto
  with get_tags_total [OF assms(1)] map_of_get_class_tags [OF assms(2)] show ?thesis by simp
qed

theorem tags_resolution_witness:
  "tags_dynamic_ok demo_new \<and> class_tags_ok (obj_cls demo_new)
   \<and> wf_dict [(''capability:missing_values'', PBool False)]
   \<and> map_of [(''capability:missing_values'', PBool False)] ''capability:missing_values''
       = Some (PBool False)
   \<and> (\<exists>ts. get_tags demo_new = Inr ts \<and>
               set (dict_keys (get_class_tags (obj_cls demo_new))) \<subseteq> set (dict_keys ts))
   \<and> map_of (get_class_tags (obj_cls demo_new)) ''capability:missing_values''
       = mro_lookup (mro_tags (obj_cls demo_new)) ''capability:missing_values''
   \<and> mro_lookup (mro_tags (obj_cls demo_new)) ''capability:missing_values'' = Some (PBool True)
   \<and> (\<exists>self'. set_tags demo_new [(''capability:missing_values'', PBool False)] = Inr self'
         \<and> get_tag self' ''capability:missing_values'' PNone True = Inr (PBool False))"
proof -
  have 1: "tags_dynamic_ok demo_new"
    by (simp add: tags_dynamic_ok_def demo_new_def getattr_def wf_dict_def)
  have 2: "class_tags_ok (obj_cls demo_new)"
    by (simp add: class_tags_ok_def demo_new_def Demo_cls_def Demo_tags_def
          BaseEstimator_tags_def wf_dict_def)
  have 3: "wf_dict [(''capability:missing_values'', PBool False)]"
    by (simp add: wf_dict_def)
  have 4: "map_of [(''capability:missing_values'', PBool False)] ''capability:missing_values''
       = Some (PBool False)" by simp
  have 5: "mro_lookup (mro_tags (obj_cls demo_new)) ''capability:missing_values'' = Some (PBool True)"
    by (simp add: demo_new_def Demo_cls_def Demo_tags_def)
  from tags_resolution [OF 1 2 3 4, of "''capability:missing_values''" PNone True] 1 2 3 4 5
  show ?thesis by blast
qed

text \<open>
  Claim C5, as the code has it. For a name that is not a key of the merged tags, the
  lookup returns the default when the raise flag is unset and raises when it is set, on
  the class and on the instance; the exception is a \<^verbatim>\<open>ValueError\<close> that names the tag;
  the raise flag of \<^verbatim>\<open>get_tag\<close> defaults to true, the one of \<^verbatim>\<open>get_class_tag\<close> to false.
\<close>

theorem missing_tag_default_or_ValueError:
  assumes "tag_name \<notin> set (dict_keys (get_class_tags cls))"
    and "get_tags self = Inr ts" and "tag_name \<notin> set (dict_keys ts)"
  shows "get_class_tag cls tag_name dflt False = Inr dflt
       \<and> get_class_tag cls tag_name dflt True
           = Inl (Raise ExcValueError (''Tag with name '' @ tag_name @ '' could not be found.''))
       \<and> get_tag self tag_name dflt False = Inr dflt
       \<and> get_tag self tag_name dflt True
           = Inl (Raise ExcValueError (''Tag with name '' @ tag_name @ '' could not be found.''))
       \<and> get_tag_raise_error_default \<and> \<not> get_class_tag_raise_error_default"
  using assms
  by (simp add: get_class_tag_def get_tag_def dict_get_def in_keys_iff tag_not_found_def
        get_tag_raise_error_default_def get_class_tag_raise_error_default_def)

theorem missing_tag_default_or_ValueError_witness:
  "''no_such_tag'' \<notin> set (dict_keys (get_class_tags BaseEstimator_cls))
   \<and> get_tags base_new = Inr BaseEstimator_tags
   \<and> ''no_such_tag'' \<notin> set (dict_keys BaseEstimator_tags)
   \<and> get_class_tag BaseEstimator_cls ''no_such_tag'' (PInt 5) False = Inr (PInt 5)
   \<and> get_class_tag BaseEstimator_cls ''no_such_tag'' (PInt 5) True
       = Inl (Raise ExcValueError ''Tag with name no_such_tag could not be found.'')
   \<and> get_tag base_new ''no_such_tag'' (PInt 5) False = Inr (PInt 5)
   \<and> get_tag base_new ''no_such_tag'' (PInt 5) True
       = Inl (Raise ExcValueError ''Tag with name no_such_tag could not be found.'')"
proof -
  have 0: "get_class_tags BaseEstimator_cls = BaseEstimator_tags"
    by (simp add: get_class_tags_def BaseEstimator_cls_def deepcopy_def dict_update_def
          BaseEstimator_tags_def)
  have 1: "''no_such_tag'' \<notin> set (dict_keys (get_class_tags BaseEstimator_cls))"
    by (simp add: 0) (simp add: BaseEstimator_tags_def dict_keys_def)
  have 2: "get_tags base_new = Inr BaseEstimator_tags"
    by (simp add: get_tags_def base_new_def getattr_def 0 deepcopy_def dict_update_def)
  have 3: "''no_such_tag'' \<notin> set (dict_keys BaseEstimator_tags)"
    by (simp add: BaseEstimator_tags_def dict_keys_def)
  from missing_tag_default_or_ValueError [OF 1 2 3, of "PInt 5"] 1 2 3
  show ?thesis by simp
qed

text \<open>The claim as stated fails: the exception is a \<^verbatim>\<open>ValueError\<close>, which is not a
  \<^verbatim>\<open>LookupError\<close>.\<close>

theorem missing_tag_not_LookupError:
  "get_class_tag BaseEstimator_cls ''no_such_tag'' PNone True
     = Inl (Raise ExcValueError ''Tag with name no_such_tag could not be found.'')
   \<and> \<not> isinstance_exc (Raise ExcValueError ''Tag with name no_such_tag could not be found.'')
         ExcLookupError
   \<and> get_tag base_new ''no_such_tag'' PNone get_tag_raise_error_default
     = Inl (Raise ExcValueError ''Tag with name no_such_tag could not be found.'')"
  by (simp add: get_class_tag_def get_class_tags_def BaseEstimator_cls_def deepcopy_def
        dict_update_def BaseEstimator_tags_def dict_keys_def dict_get_def tag_not_found_def
        isinstance_exc_def get_tag_def get_tags_def base_new_def getattr_def
        get_tag_raise_error_default_def)

text \<open>
  Claim C9. On an instance with well-formed dynamic tags whose class gives
  \<^verbatim>\<open>capability:missing_values\<close> the static value \<^verbatim>\<open>False\<close>, \<^verbatim>\<open>set_tags\<close> with
  \<^verbatim>\<open>capability:missing_values=True\<close> returns; afterwards \<^verbatim>\<open>get_tag\<close> gives \<^verbatim>\<open>True\<close> and
  \<^verbatim>\<open>get_class_tag\<close> still gives \<^verbatim>\<open>False\<close>; the static tags of every class of the
  resolution order are the same as before, and so is every attribute of the instance
  other than \<^verbatim>\<open>_tags_dynamic\<close>.
\<close>

theorem set_tags_only_dynamic:
  assumes "tags_dynamic_ok self"
    and "map_of (get_class_tags (obj_cls self)) ''capability:missing_values'' = Some (PBool False)"
  shows "\<exists>self'. set_tags self [(''capability:missing_values'', PBool True)] = Inr self'
          \<and> get_tag self' ''capability:missing_values'' d r = Inr (PBool True)
          \<and> get_class_tag (obj_cls self') ''capability:missing_values'' d' r' = Inr (PBool False)
          \<and> mro_tags (obj_cls self') = mro_tags (obj_cls self)
          \<and> get_class_tags (obj_cls self') = get_class_tags (obj_cls self)
          \<and> (\<forall>name. name \<noteq> ''_tags_dynamic'' \<longrightarrow> getattr self' name = getattr self name)"
proof -
  let ?td = "[(''capability:missing_values'', PBool True)]"
  from set_tags_effect [OF assms(1), of ?td] obtain self' where
    st: "set_tags self ?td = Inr self'"
    and mro: "mro_tags (obj_cls self') = mro_tags (obj_cls self)"
    and frame: "\<forall>name. name \<noteq> ''_tags_dynamic'' \<longrightarrow> getattr self' name = getattr self name"
    by auto
  have "get_tag self' ''capability:missing_values'' d r = Inr (PBool True)"
    using set_tags_get_tag [OF assms(1) _ _ st] by (simp add: wf_dict_def)
  moreover from mro have ct: "get_class_tags (obj_cls self') = get_class_tags (obj_cls self)"
    by (rule get_class_tags_cong)
  moreover have "get_class_tag (obj_cls self') ''capability:missing_values'' d' r' = Inr (PBool False)"
    using assms(2) by (simp add: get_class_tag_def ct dict_get_def in_keys_iff)
  ultimately show ?thesis using st mro frame by simp
qed

theorem set_tags_only_dynamic_witness:
  "tags_dynamic_ok base_new
   \<and> map_of (get_class_tags (obj_cls base_new)) ''capability:missing_values'' = Some (PBool False)
   \<and> (\<exists>self'. set_tags base_new [(''capability:missing_values'', PBool True)] = Inr self'
          \<and> get_tag self' ''capability:missing_values'' PNone True = Inr (PBool True)
          \<and> get_class_tag (obj_cls self') ''capability:missing_values'' PNone False
              = Inr (PBool False)
          \<and> mro_tags (obj_cls self') = mro_tags (obj_cls base_new)
          \<and> get_class_tags (obj_cls self') = get_class_tags (obj_cls base_new)
          \<and> getattr self' ''_is_fitted'' = getattr base_new ''_is_fitted'')"
proof -
  have 1: "tags_dynamic_ok base_new"
    by (simp add: tags_dynamic_ok_def base_new_def getattr_def wf_dict_def)
  have 2: "map_of (get_class_tags (obj_cls base_new)) ''capability:missing_values''
             = Some (PBool False)"
    by (simp add: get_class_tags_def base_new_def BaseEstimator_cls_def deepcopy_def
          dict_update_def BaseEstimator_tags_def)
  from set_tags_only_dynamic [OF 1 2, of PNone True PNone False] 1 2
  show ?thesis by fastforce
qed

section \<open>Properties of the lifecycle\<close>

text \<open>
  The constructor of a class is well-formed when it names each parameter once (Python
  refuses anything else) and, for a class that derives from aeon's \<^verbatim>\<open>BaseEstimator\<close>,
  no parameter has the name of one of the two attributes that
  \<^verbatim>\<open>BaseEstimator.__init__\<close> sets. A well-formed aeon estimator class is a class that
  derives from \<^verbatim>\<open>BaseEstimator\<close> and has such a constructor.
\<close>

definition init_names_ok :: "pyclass \<Rightarrow> bool" where
  "init_names_ok cls =
     (distinct (map fst (init_params cls))
      \<and> (kind cls = AeonEstimator \<longrightarrow>
            ''_is_fitted'' \<notin> set (map fst (init_params cls))
            \<and> ''_tags_dynamic'' \<notin> set (map fst (init_params cls))))"

definition estimator_class_ok :: "pyclass \<Rightarrow> bool" where
  "estimator_class_ok cls = (kind cls = AeonEstimator \<and> init_names_ok cls)"

lemma update_fresh: "k \<notin> fst ` set al \<Longrightarrow> AList.update k v al = al @ [(k, v)]"
  by (induction al) auto

lemma foldM_params_iff:
  assumes "distinct keys" and "set keys \<inter> fst ` set acc = {}"
  shows "foldM (\<lambda>key out.
              case getattr self key of
                None \<Rightarrow> Inl (Raise ExcAttributeError key)
              | Some value \<Rightarrow> Inr (AList.update key value out)) keys acc = Inr ps
         \<longleftrightarrow> (\<forall>k \<in> set keys. getattr self k \<noteq> None)
             \<and> ps = acc @ map (\<lambda>k. (k, the (getattr self k))) keys"
  using assms
proof (induction keys arbitrary: acc)
  case Nil then show ?case by auto
next
  case (Cons key keys)
  show ?case
  proof (cases "getattr self key")
    case None then show ?thesis by simp
  next
    case (Some val)
    from Cons.prems have fresh: "key \<notin> fst ` set acc" by auto
    from Cons.prems have "distinct keys" and "set keys \<inter> fst ` set (acc @ [(key, val)]) = {}"
      by auto
    from Cons.IH [OF this] Some fresh show ?thesis by (simp add: update_fresh)
  qed
qed

lemma get_params_False_iff:
  assumes "distinct (map fst (init_params (obj_cls self)))"
  shows "get_params False self = Inr ps
         \<longleftrightarrow> (\<forall>k \<in> set (map fst (init_params (obj_cls self))). getattr self k \<noteq> None)
             \<and> ps = map (\<lambda>k. (k, the (getattr self k))) (map fst (init_params (obj_cls self)))"
  using foldM_params_iff [OF assms, of "[]" self ps] by (simp add: get_params_False)

lemma delattrs_ok:
  assumes "distinct xs" and "set xs \<subseteq> set (dict_keys (obj_attrs self))"
  shows "\<exists>self1. foldM (\<lambda>attr s. delattr s attr) xs self = Inr self1
           \<and> obj_cls self1 = obj_cls self
           \<and> map_of (obj_attrs self1) = map_of (obj_attrs self) |` (- set xs)"
  using assms
proof (induction xs arbitrary: self)
  case Nil then show ?case by simp
next
  case (Cons x xs)
  let ?s = "Obj (obj_cls self) (AList.delete x (obj_attrs self))"
  from Cons.prems have d: "delattr self x = Inr ?s" by (simp add: delattr_def)
  from Cons.prems have "distinct xs" and "set xs \<subseteq> set (dict_keys (obj_attrs ?s))"
    by (auto simp: dict_keys_def delete_keys)
  from Cons.IH [OF this] obtain self1 where
    1: "foldM (\<lambda>attr s. delattr s attr) xs ?s = Inr self1" and 2: "obj_cls self1 = obj_cls self"
    and 3: "map_of (obj_attrs self1) = map_of (obj_attrs ?s) |` (- set xs)" by auto
  have "map_of (obj_attrs self1) = map_of (obj_attrs self) |` (- set (x # xs))"
    by (rule ext) (simp add: 3 delete_conv' restrict_map_def)
  with 1 2 d show ?case by simp
qed

lemma obj_cls_fold_setattr [simp]:
  "obj_cls (fold (\<lambda>(p, v) s. setattr s p v) args self) = obj_cls self"
  by (induction args arbitrary: self) auto

lemma getattr_fold_setattr:
  "getattr (fold (\<lambda>(p, v) s. setattr s p v) args self) m =
     (case map_of (rev args) m of Some v \<Rightarrow> Some v | None \<Rightarrow> getattr self m)"
proof (induction args arbitrary: self)
  case Nil then show ?case by simp
next
  case (Cons a args)
  obtain p v where a: "a = (p, v)" by (cases a)
  show ?case
    by (simp add: a Cons.IH getattr_setattr map_add_def split: option.splits)
qed

lemma bind_kwargs_params:
  assumes "map fst kwargs = map fst (init_params cls)" and "distinct (map fst kwargs)"
  shows "bind_kwargs cls kwargs = Inr kwargs"
proof -
  have 1: "filter (\<lambda>k. k \<notin> set (map fst (init_params cls))) (dict_keys kwargs) = []"
    using assms(1) by (simp add: dict_keys_def filter_empty_conv)
  have 2: "map fst ps = map fst qs \<Longrightarrow> set qs \<subseteq> set kwargs \<Longrightarrow>
     mapM (\<lambda>(p, dflt). case map_of kwargs p of
                    Some v \<Rightarrow> Inr (p, v)
                  | None \<Rightarrow> (case dflt of
                         Some v \<Rightarrow> Inr (p, v)
                       | None \<Rightarrow> Inl (Raise ExcTypeError (''__init__() missing required argument '' @ p))))
        ps = Inr qs" for ps :: "(string \<times> pyval option) list" and qs
  proof (induction ps arbitrary: qs)
    case Nil then show ?case by simp
  next
    case (Cons a ps)
    then obtain q qs' where qs: "qs = q # qs'" by (cases qs) auto
    obtain p dflt where a: "a = (p, dflt)" by (cases a)
    obtain k v where q: "q = (k, v)" by (cases q)
    from Cons.prems qs a q have "k = p" and "(p, v) \<in> set kwargs" by auto
    with assms(2) have "map_of kwargs p = Some v" by simp
    moreover from Cons.prems qs have "map fst ps = map fst qs'" and "set qs' \<subseteq> set kwargs" by auto
    ultimately show ?case using Cons.IH [of qs'] qs a q \<open>k = p\<close> by simp
  qed
  from 1 2 [of "init_params cls" kwargs] assms(1) show ?thesis
    by (simp add: bind_kwargs_def)
qed

lemma estimator_init_params:
  assumes ok: "init_names_ok (obj_cls self)"
    and keys: "map fst params = map fst (init_params (obj_cls self))"
  shows "\<exists>self'. estimator_init self params = Inr self'
           \<and> obj_cls self' = obj_cls self
           \<and> get_params False self' = Inr params
           \<and> (kind (obj_cls self) = AeonEstimator \<longrightarrow>
                 getattr self' ''_is_fitted'' = Some (PBool False)
                 \<and> getattr self' ''_tags_dynamic'' = Some (PDict []))
           \<and> (\<forall>m. m \<notin> set (map fst params) \<longrightarrow> m \<noteq> ''_is_fitted'' \<longrightarrow> m \<noteq> ''_tags_dynamic''
                 \<longrightarrow> getattr self' m = getattr self m)"
proof -
  let ?names = "map fst (init_params (obj_cls self))"
  let ?aeon = "kind (obj_cls self) = AeonEstimator"
  from ok have dist: "distinct ?names"
    and r1: "?aeon \<Longrightarrow> ''_is_fitted'' \<notin> set ?names"
    and r2: "?aeon \<Longrightarrow> ''_tags_dynamic'' \<notin> set ?names"
    by (simp_all add: init_names_ok_def)
  from keys dist have dp: "distinct (map fst params)" by simp
  let ?self1 = "fold (\<lambda>(p, v) s. setattr s p v) params self"
  let ?self' = "if ?aeon then BaseEstimator_init ?self1 else ?self1"
  have init: "estimator_init self params = Inr ?self'"
    using bind_kwargs_params [OF keys dp] by (simp add: estimator_init_def)
  have mr: "map_of (rev params) = map_of params"
    using dp by (simp add: map_of_rev_wf wf_dict_def)
  have ga: "getattr ?self' m =
      (if ?aeon \<and> m = ''_tags_dynamic'' then Some (PDict [])
       else if ?aeon \<and> m = ''_is_fitted'' then Some (PBool False)
       else case map_of params m of Some v \<Rightarrow> Some v | None \<Rightarrow> getattr self m)" for m
    by (simp add: BaseEstimator_init_def getattr_setattr getattr_fold_setattr mr)
  have cls: "obj_cls ?self' = obj_cls self" by (simp add: BaseEstimator_init_def)
  have "getattr ?self' k = map_of params k \<and> map_of params k \<noteq> None" if "k \<in> set ?names" for k
  proof -
    from that keys have "k \<in> fst ` set params" by (metis image_set)
    then have "map_of params k \<noteq> None" by (simp add: map_of_eq_None_iff)
    moreover from that r1 r2 have "?aeon \<Longrightarrow> k \<noteq> ''_is_fitted''"
      and "?aeon \<Longrightarrow> k \<noteq> ''_tags_dynamic''" by blast+
    ultimately show ?thesis unfolding ga by auto
  qed
  then have A: "\<forall>k \<in> set ?names. getattr ?self' k = map_of params k \<and> map_of params k \<noteq> None"
    by blast
  have B: "map (\<lambda>k. (k, the (map_of params k))) (map fst params) = params"
  proof -
    have "map (\<lambda>x. (fst x, the (map_of params (fst x)))) params = params"
      by (rule map_idI) (use dp in \<open>auto simp: map_of_eq_Some_iff\<close>)
    then show ?thesis by (simp add: comp_def)
  qed
  have "get_params False ?self' = Inr params"
  proof -
    have a: "\<forall>k \<in> set ?names. getattr ?self' k \<noteq> None" using A by auto
    have "map (\<lambda>k. (k, the (getattr ?self' k))) ?names
            = map (\<lambda>k. (k, the (map_of params k))) ?names"
      by (rule map_cong) (use A in auto)
    also have "\<dots> = params" using B keys by simp
    finally have "params = map (\<lambda>k. (k, the (getattr ?self' k))) ?names" by simp
    with a dist show ?thesis
      using get_params_False_iff [of ?self' params] cls by simp
  qed
  moreover have "getattr ?self' m = getattr self m"
    if "m \<notin> set (map fst params)" and "m \<noteq> ''_is_fitted''" and "m \<noteq> ''_tags_dynamic''" for m
  proof -
    from that(1) have "map_of params m = None" by (simp add: map_of_eq_None_iff)
    with that show ?thesis unfolding ga by simp
  qed
  moreover have "?aeon \<longrightarrow> getattr ?self' ''_is_fitted'' = Some (PBool False)
                 \<and> getattr ?self' ''_tags_dynamic'' = Some (PDict [])"
    unfolding ga by simp
  ultimately show ?thesis using init cls by blast
qed

lemma distinct_reset_self_attrs:
  "distinct (filter (\<lambda>attr. attr \<notin> set (dir_cls (obj_cls self)))
              (filter (\<lambda>attr. \<not> has_dunder attr) (dir_obj self)))"
  by (simp add: dir_obj_def)

lemma reset_self_attrs_subset:
  "set (filter (\<lambda>attr. attr \<notin> set (dir_cls (obj_cls self)))
          (filter (\<lambda>attr. \<not> has_dunder attr) (dir_obj self)))
   \<subseteq> set (dict_keys (obj_attrs self))"
  by (auto simp: dir_obj_def)

text \<open>
  Claim C1. For an instance of a well-formed estimator class that has all its
  hyper-parameters as attributes (so that \<^verbatim>\<open>get_params(deep=False)\<close> returns),
  \<^verbatim>\<open>reset()\<close> returns; afterwards \<^verbatim>\<open>get_params(deep=False)\<close> returns the same dictionary as
  before and \<^verbatim>\<open>is_fitted\<close> is \<^verbatim>\<open>False\<close>. The instance keeps its class.
\<close>

theorem reset_restores:
  assumes "estimator_class_ok (obj_cls self)" and "get_params False self = Inr params"
  shows "\<exists>self'. reset self PNone = Inr self'
           \<and> get_params False self' = Inr params
           \<and> is_fitted self' = Inr (PBool False)
           \<and> obj_cls self' = obj_cls self"
proof -
  let ?self_attrs = "filter (\<lambda>attr. attr \<notin> set (dir_cls (obj_cls self)))
              (filter (\<lambda>attr. \<not> has_dunder attr) (dir_obj self))"
  from delattrs_ok [OF distinct_reset_self_attrs reset_self_attrs_subset, of self]
  obtain self1 where del: "foldM (\<lambda>attr s. delattr s attr) ?self_attrs self = Inr self1"
    and cls1: "obj_cls self1 = obj_cls self" by auto
  from assms(1) have ok1: "init_names_ok (obj_cls self1)" and kd: "kind (obj_cls self1) = AeonEstimator"
    by (simp_all add: estimator_class_ok_def cls1)
  from assms(2) ok1 have keys: "map fst params = map fst (init_params (obj_cls self1))"
    by (simp add: get_params_False_iff init_names_ok_def cls1 comp_def)
  from estimator_init_params [OF ok1 keys] kd cls1
  obtain self' where "estimator_init self1 params = Inr self'" and "obj_cls self' = obj_cls self"
    and "get_params False self' = Inr params" and "getattr self' ''_is_fitted'' = Some (PBool False)"
    by auto
  with del assms(2) show ?thesis
    by (simp add: reset_def Let_def is_fitted_def)
qed

theorem reset_restores_witness:
  "estimator_class_ok (obj_cls demo_fitted)
   \<and> get_params False demo_fitted = Inr [(''estimator'', PNone), (''n'', PInt 3)]
   \<and> is_fitted demo_fitted = Inr (PBool True)
   \<and> (\<exists>self'. reset demo_fitted PNone = Inr self'
           \<and> get_params False self' = Inr [(''estimator'', PNone), (''n'', PInt 3)]
           \<and> is_fitted self' = Inr (PBool False)
           \<and> obj_cls self' = obj_cls demo_fitted)"
proof -
  have 1: "estimator_class_ok (obj_cls demo_fitted)"
    by (simp add: estimator_class_ok_def init_names_ok_def demo_fitted_def Demo_cls_def)
  have 2: "get_params False demo_fitted = Inr [(''estimator'', PNone), (''n'', PInt 3)]"
    by (simp add: get_params_False demo_fitted_def Demo_cls_def getattr_def)
  have 3: "is_fitted demo_fitted = Inr (PBool True)"
    by (simp add: is_fitted_def demo_fitted_def getattr_def)
  from reset_restores [OF 1 2] 1 2 3 show ?thesis by simp
qed

lemma construct_fresh:
  assumes "kind cls = AeonEstimator" and "construct cls kwargs = Inr new"
  shows "obj_cls new = cls \<and> getattr new ''_is_fitted'' = Some (PBool False)
         \<and> getattr new ''_tags_dynamic'' = Some (PDict [])"
  using assms
  by (auto simp: construct_def estimator_init_def BaseEstimator_init_def getattr_setattr
           split: sum.splits)

text \<open>
  Claim C6. When the flag \<^verbatim>\<open>_is_fitted\<close> holds a Boolean, \<^verbatim>\<open>check_is_fitted()\<close> raises
  \<^verbatim>\<open>NotFittedError\<close>, with a message that contains the name of the class of the instance,
  exactly when the flag is false, and returns exactly when it is true. An instance that
  the constructor has just returned, before any fit, is in the first case.
\<close>

theorem check_is_fitted_iff:
  "(getattr self ''_is_fitted'' = Some (PBool fitted) \<longrightarrow>
      is_fitted self = Inr (PBool fitted)
      \<and> (check_is_fitted self
            = Inl (Raise ExcNotFittedError
                     (''This instance of '' @ cname (obj_cls self) @
                      '' has not been fitted yet; please call `fit` first.''))
          \<longleftrightarrow> \<not> fitted)
      \<and> (check_is_fitted self = Inr () \<longleftrightarrow> fitted))
   \<and> (kind cls = AeonEstimator \<and> construct cls kwargs = Inr new \<longrightarrow>
        check_is_fitted new
          = Inl (Raise ExcNotFittedError
                   (''This instance of '' @ cname cls @
                    '' has not been fitted yet; please call `fit` first.'')))"
proof -
  have "check_is_fitted new
          = Inl (Raise ExcNotFittedError
                   (''This instance of '' @ cname cls @
                    '' has not been fitted yet; please call `fit` first.''))"
    if "kind cls = AeonEstimator" and "construct cls kwargs = Inr new"
    using construct_fresh [OF that]
    by (simp add: check_is_fitted_def is_fitted_def not_fitted_msg_def)
  then show ?thesis
    by (auto simp: check_is_fitted_def is_fitted_def not_fitted_msg_def)
qed

theorem check_is_fitted_iff_witness:
  "getattr demo_fitted ''_is_fitted'' = Some (PBool True)
   \<and> check_is_fitted demo_fitted = Inr ()
   \<and> getattr demo_new ''_is_fitted'' = Some (PBool False)
   \<and> kind Demo_cls = AeonEstimator
   \<and> construct Demo_cls [(''n'', PInt 3)] = Inr demo_new
   \<and> check_is_fitted demo_new
       = Inl (Raise ExcNotFittedError
                ''This instance of DemoEstimator has not been fitted yet; please call `fit` first.'')"
proof -
  have 1: "getattr demo_fitted ''_is_fitted'' = Some (PBool True)"
    by (simp add: demo_fitted_def getattr_def)
  have 2: "getattr demo_new ''_is_fitted'' = Some (PBool False)"
    by (simp add: demo_new_def getattr_def)
  have 3: "kind Demo_cls = AeonEstimator" by (simp add: Demo_cls_def)
  have 4: "construct Demo_cls [(''n'', PInt 3)] = Inr demo_new"
    by (simp add: construct_def estimator_init_def bind_kwargs_def Demo_cls_def dict_keys_def
          BaseEstimator_init_def setattr_def demo_new_def)
  have 5: "cname Demo_cls = ''DemoEstimator''" by (simp add: Demo_cls_def)
  from check_is_fitted_iff [of demo_fitted True Demo_cls "[(''n'', PInt 3)]" demo_new]
    1 2 3 4 5 show ?thesis by simp
qed

text \<open>
  Claim C8, as the code has it. When the hyper-parameters can be read, \<^verbatim>\<open>reset(keep=...)\<close>
  raises the \<^verbatim>\<open>TypeError\<close> of lines 97-100 for every \<^verbatim>\<open>keep\<close> that is not \<^verbatim>\<open>None\<close>, not a
  string and not a list; the elements of a list are not looked at.
\<close>

theorem reset_keep_type_error:
  assumes "get_params False self = Inr params"
    and "keep \<noteq> PNone" and "\<forall>s. keep \<noteq> PStr s" and "\<forall>xs. keep \<noteq> PList xs"
  shows "reset self keep
           = Inl (Raise ExcTypeError
                    (''keep must be a string or list of strings containing attributes '' @
                     ''to keep after the reset.''))"
  using assms by (cases keep) (simp_all add: reset_def Let_def keep_type_error_def)

theorem reset_keep_type_error_witness:
  "get_params False demo_fitted = Inr [(''estimator'', PNone), (''n'', PInt 3)]
   \<and> PInt 1 \<noteq> PNone \<and> (\<forall>s. PInt 1 \<noteq> PStr s) \<and> (\<forall>xs. PInt 1 \<noteq> PList xs)
   \<and> reset demo_fitted (PInt 1)
       = Inl (Raise ExcTypeError
                ''keep must be a string or list of strings containing attributes to keep after the reset.'')"
proof -
  have 1: "get_params False demo_fitted = Inr [(''estimator'', PNone), (''n'', PInt 3)]"
    by (simp add: get_params_False demo_fitted_def Demo_cls_def getattr_def)
  from reset_keep_type_error [OF 1, of "PInt 1"] 1 show ?thesis by simp
qed

text \<open>The claim as stated fails: a list of integers is neither a string nor a list of
  strings, and \<^verbatim>\<open>reset\<close> accepts it; so it does \<^verbatim>\<open>None\<close>.\<close>

theorem reset_keep_list_of_int_accepted:
  "reset demo_fitted (PList [PInt 1]) = Inr demo_new \<and> reset demo_fitted PNone = Inr demo_new"
  by (simp add: reset_def get_params_False demo_fitted_def Demo_cls_def getattr_def dir_obj_def
        dir_cls_def dict_keys_def delattr_def estimator_init_def bind_kwargs_def
        BaseEstimator_init_def setattr_def demo_new_def)

text \<open>
  Claim C4. Let \<^verbatim>\<open>pickle.loads\<close> restore what \<^verbatim>\<open>pickle.dumps\<close> has written, and let the
  instance be one that \<^verbatim>\<open>pickle.dumps\<close> accepts. Then \<^verbatim>\<open>save(None)\<close> returns a pair whose
  first component is the class, and \<^verbatim>\<open>load_from_serial\<close> of the second component returns
  the instance: the same hyper-parameters and the same fitted flag, fitted or not.
\<close>

theorem save_load_round_trip:
  assumes "\<And>v b. pickle_dumps v = Inr b \<Longrightarrow> pickle_loads b = Inr v"
    and "pickle_dumps (PObj self) = Inr b"
  shows "\<exists>serial. save pickle_dumps self PNone = Inr (InMemory serial)
           \<and> fst serial = obj_cls self
           \<and> (\<exists>self'. load_from_serial pickle_loads (snd serial) = Inr (PObj self')
                  \<and> get_params deep self' = get_params deep self
                  \<and> is_fitted self' = is_fitted self
                  \<and> self' = self)"
  using assms by (simp add: save_def load_from_serial_def)

text \<open>For the witness, a pickle that writes a value as itself.\<close>

theorem save_load_round_trip_witness:
  "(Inr (PObj demo_fitted) :: pyerror + pyval) = Inr (PObj demo_fitted)
   \<and> (\<exists>serial. save Inr demo_fitted PNone = Inr (InMemory serial)
           \<and> fst serial = obj_cls demo_fitted
           \<and> (\<exists>self'. load_from_serial Inr (snd serial) = Inr (PObj self')
                  \<and> is_fitted self' = Inr (PBool True)
                  \<and> self' = demo_fitted))"
proof -
  have 1: "\<And>v b. (Inr v :: pyerror + pyval) = Inr b \<Longrightarrow> (Inr b :: pyerror + pyval) = Inr v"
    by simp
  have 2: "(Inr (PObj demo_fitted) :: pyerror + pyval) = Inr (PObj demo_fitted)" by simp
  have 3: "is_fitted demo_fitted = Inr (PBool True)"
    by (simp add: is_fitted_def demo_fitted_def getattr_def)
  from save_load_round_trip [of Inr Inr demo_fitted "PObj demo_fitted" False, OF 1 2] 3
  show ?thesis by auto
qed

section \<open>Properties of clone\<close>






















section \<open>Properties of the fitted parameters\<close>





















section \<open>The store: tags as shared mutable objects\<close>

text \<open>
  Whether \<^verbatim>\<open>set_tags\<close> keeps a reference to what the caller passed cannot be seen on
  immutable values. This section models the tag operations once more, on an explicit
  store. A value is an atom or a reference to a cell; a cell is a mutable list or a
  mutable dictionary; the store is the list of all cells, a reference being an index
  into it, and a new cell is appended. An estimator is reduced to what the tag
  operations touch: the addresses of the \<^verbatim>\<open>_tags\<close> dictionaries along the resolution
  order (as \<open>mro_tags\<close> above) and the address of \<^verbatim>\<open>_tags_dynamic\<close>, if the instance has
  the attribute. A result of \<open>None\<close> stands for a failure of the operation (a reference
  to no cell, or a cell that is no dictionary).
\<close>

datatype hval = HNone | HBool bool | HInt int | HStr string | HRef nat

datatype cell = CList "hval list" | CDict "(string \<times> hval) list"

type_synonym heap = "cell list"

record hestimator =
  class_tags :: "nat option list"
  tags_dynamic :: "nat option"


definition dict_items :: "heap \<Rightarrow> nat \<Rightarrow> (string \<times> hval) list option" where
  "dict_items h a =
     (if a < length h then (case h ! a of CDict d \<Rightarrow> Some d | CList xs \<Rightarrow> None) else None)"

text \<open>\<^verbatim>\<open>a.update(b)\<close> on two dictionaries of the store: the cell of \<open>a\<close> is overwritten, and
  the values it receives are the very references that \<open>b\<close> holds.\<close>

definition dict_update_h :: "heap \<Rightarrow> nat \<Rightarrow> nat \<Rightarrow> heap option" where
  "dict_update_h h a b =
     (case dict_items h a of
        None \<Rightarrow> None
      | Some da \<Rightarrow>
          (case dict_items h b of
             None \<Rightarrow> None
           | Some db \<Rightarrow> Some (h[a := CDict (dict_update da db)])))"

text \<open>
  \<^verbatim>\<open>copy.deepcopy\<close> on the store. Python copies every cell that the argument reaches,
  once (its memo dictionary keeps shared and cyclic references as they are), and
  returns the reference to the copy of the first. The model copies every cell of the
  store to the same distance, \<open>length h\<close>, and moves the references in the copies by that
  distance: what the result reaches is the same graph as in Python, and the copies of
  the cells that the argument does not reach are reached by nothing. An atom is its own
  copy.
\<close>

fun shift :: "nat \<Rightarrow> hval \<Rightarrow> hval" where
  "shift m (HRef a) = HRef (m + a)"
| "shift m v = v"

fun shift_cell :: "nat \<Rightarrow> cell \<Rightarrow> cell" where
  "shift_cell m (CList xs) = CList (map (shift m) xs)"
| "shift_cell m (CDict d) = CDict (map (\<lambda>(k, v). (k, shift m v)) d)"

fun deepcopy_h :: "heap \<Rightarrow> hval \<Rightarrow> heap \<times> hval" where
  "deepcopy_h h (HRef a) = (h @ map (shift_cell (length h)) h, HRef (length h + a))"
| "deepcopy_h h v = (h, v)"

fun foldO :: "('a \<Rightarrow> 'b \<Rightarrow> 'b option) \<Rightarrow> 'a list \<Rightarrow> 'b \<Rightarrow> 'b option" where
  "foldO f [] acc = Some acc"
| "foldO f (x # xs) acc = (case f x acc of None \<Rightarrow> None | Some acc' \<Rightarrow> foldO f xs acc')"

text \<open>\<^verbatim>\<open>get_class_tags\<close> (lines 131-155) on the store: \<^verbatim>\<open>collected_tags = dict()\<close> is a new
  cell, at the address \<open>length h\<close>; the result is the store and the address of the copy
  that is returned.\<close>

definition get_class_tags_h :: "heap \<Rightarrow> nat option list \<Rightarrow> (heap \<times> nat) option" where
  "get_class_tags_h h mro =
     (let collected_tags = length h;
          h1 = h @ [CDict []]
      in case foldO (\<lambda>parent_tags h.
                       case parent_tags of
                         None \<Rightarrow> Some h
                       | Some more_tags \<Rightarrow> dict_update_h h collected_tags more_tags)
                (rev mro) h1 of
           None \<Rightarrow> None
         | Some h2 \<Rightarrow>
             (case deepcopy_h h2 (HRef collected_tags) of
                (h3, HRef r) \<Rightarrow> Some (h3, r)
              | _ \<Rightarrow> None))"

text \<open>\<^verbatim>\<open>get_tags\<close> (lines 203-233) on the store.\<close>

definition get_tags_h :: "heap \<Rightarrow> hestimator \<Rightarrow> (heap \<times> nat) option" where
  "get_tags_h h self =
     (case get_class_tags_h h (class_tags self) of
        None \<Rightarrow> None
      | Some (h1, collected_tags) \<Rightarrow>
          (case (case tags_dynamic self of
                   None \<Rightarrow> Some h1
                 | Some d \<Rightarrow> dict_update_h h1 collected_tags d) of
             None \<Rightarrow> None
           | Some h2 \<Rightarrow>
               (case deepcopy_h h2 (HRef collected_tags) of
                  (h3, HRef r) \<Rightarrow> Some (h3, r)
                | _ \<Rightarrow> None)))"

text \<open>\<^verbatim>\<open>get_tag\<close> (lines 235-281) on the store: the store after the call and what the call
  returns or raises.\<close>

definition get_tag_h ::
  "heap \<Rightarrow> hestimator \<Rightarrow> string \<Rightarrow> hval \<Rightarrow> bool \<Rightarrow> (heap \<times> (pyerror + hval)) option" where
  "get_tag_h h self tag_name tag_value_default raise_error =
     (case get_tags_h h self of
        None \<Rightarrow> None
      | Some (h1, collected_tags) \<Rightarrow>
          (case dict_items h1 collected_tags of
             None \<Rightarrow> None
           | Some items \<Rightarrow>
               Some (h1, if raise_error \<and> tag_name \<notin> set (dict_keys items)
                         then Inl (tag_not_found tag_name)
                         else Inr (dict_get items tag_name tag_value_default))))"

text \<open>\<^verbatim>\<open>set_tags\<close> (lines 283-308) on the store; \<open>tag_dict\<close> is the address of the
  dictionary of the keyword arguments.\<close>

definition set_tags_h :: "heap \<Rightarrow> hestimator \<Rightarrow> nat \<Rightarrow> (heap \<times> hestimator) option" where
  "set_tags_h h self tag_dict =
     (case deepcopy_h h (HRef tag_dict) of
        (h1, HRef tag_update) \<Rightarrow>
          (case tags_dynamic self of
             Some d \<Rightarrow>
               (case dict_update_h h1 d tag_update of
                  None \<Rightarrow> None
                | Some h2 \<Rightarrow> Some (h2, self))
           | None \<Rightarrow> Some (h1, self\<lparr>tags_dynamic := Some tag_update\<rparr>))
      | _ \<Rightarrow> None)"

text \<open>
  What a program sees of a value when it reads it to the depth \<open>n\<close>: a tree without
  addresses. Two values with the same observation at every depth cannot be told apart
  by reading.
\<close>

datatype obs =
    ONone | OBool bool | OInt int | OStr string
  | OList "obs list" | ODict "(string \<times> obs) list"
  | OCut | ODangling

fun observe :: "nat \<Rightarrow> heap \<Rightarrow> hval \<Rightarrow> obs" where
  "observe n h HNone = ONone"
| "observe n h (HBool b) = OBool b"
| "observe n h (HInt i) = OInt i"
| "observe n h (HStr s) = OStr s"
| "observe 0 h (HRef a) = OCut"
| "observe (Suc n) h (HRef a) =
     (if a < length h
      then (case h ! a of
              CList xs \<Rightarrow> OList (map (observe n h) xs)
            | CDict d \<Rightarrow> ODict (map (\<lambda>(k, v). (k, observe n h v)) d))
      else ODangling)"



subsection \<open>Reading, copying and closed sets\<close>
















subsection \<open>What the tag operations return, read from the store they started in\<close>




















subsection \<open>\<^verbatim>\<open>set_tags\<close> keeps no reference to what it is given\<close>

definition obs_result :: "nat \<Rightarrow> heap \<Rightarrow> pyerror + hval \<Rightarrow> pyerror + obs" where
  "obs_result n h res = (case res of Inl e \<Rightarrow> Inl e | Inr v \<Rightarrow> Inr (observe n h v))"






definition hest0 :: hestimator where
  "hest0 = \<lparr>class_tags = [Some 2], tags_dynamic = None\<rparr>"



text \<open>
  The hypothesis that \<open>M\<close> and \<open>K\<close> are disjoint says that the caller did not take \<open>v\<close> out of
  the private attributes \<^verbatim>\<open>_tags\<close> or \<^verbatim>\<open>_tags_dynamic\<close>; what \<^verbatim>\<open>get_tags\<close>, \<^verbatim>\<open>get_tag\<close> and
  \<^verbatim>\<open>get_class_tags\<close> return is a copy. It cannot be dropped. In the store below the list
  \<open>v\<close> at address 1 is also the value of the class tag \<^verbatim>\<open>"y"\<close>: after \<^verbatim>\<open>set_tags(x=v)\<close> a
  change of \<open>v\<close> does not show under \<^verbatim>\<open>"x"\<close>, where the copy is, and shows under \<^verbatim>\<open>"y"\<close>, as
  it does without any call of \<^verbatim>\<open>set_tags\<close>.
\<close>

definition store1 :: heap where
  "store1 = [CDict [(''x'', HRef 1)], CList [HInt 1], CDict [(''y'', HRef 1)]]"

definition read_tag :: "heap \<Rightarrow> hestimator \<Rightarrow> string \<Rightarrow> (pyerror + obs) option" where
  "read_tag h self tag_name =
     map_option (\<lambda>(h1, v). obs_result 2 h1 v) (get_tag_h h self tag_name HNone True)"

lemma tag_value_shared_with_class_tags:
  "\<exists>h' self'. set_tags_h store1 hest0 0 = Some (h', self')
     \<and> read_tag h' self' ''x'' = Some (Inr (OList [OInt 1]))
     \<and> read_tag (h'[1 := CList [HInt 1, HInt 99]]) self' ''x'' = Some (Inr (OList [OInt 1]))
     \<and> read_tag h' self' ''y'' = Some (Inr (OList [OInt 1]))
     \<and> read_tag (h'[1 := CList [HInt 1, HInt 99]]) self' ''y''
         = Some (Inr (OList [OInt 1, OInt 99]))"
proof -
  let ?h = "[CDict [(''x'', HRef 1)], CList [HInt 1], CDict [(''y'', HRef 1)],
             CDict [(''x'', HRef 4)], CList [HInt 1], CDict [(''y'', HRef 4)]]"
  let ?e = "\<lparr>class_tags = [Some 2], tags_dynamic = Some 3\<rparr>"
  have "set_tags_h store1 hest0 0 = Some (?h, ?e)" by code_simp
  moreover have "read_tag ?h ?e ''x'' = Some (Inr (OList [OInt 1]))" by code_simp
  moreover have "read_tag (?h[1 := CList [HInt 1, HInt 99]]) ?e ''x'' = Some (Inr (OList [OInt 1]))"
    by code_simp
  moreover have "read_tag ?h ?e ''y'' = Some (Inr (OList [OInt 1]))" by code_simp
  moreover have "read_tag (?h[1 := CList [HInt 1, HInt 99]]) ?e ''y''
      = Some (Inr (OList [OInt 1, OInt 99]))" by code_simp
  ultimately show ?thesis by blast
qed

end
